theory Spec2Isabelle
  imports Main
begin

section \<open>Go string primitives used by the provider\<close>

text \<open>
  Go strings are byte sequences; they are modelled as \<^typ>\<open>string\<close>. The functions below
  are the ones of package \<open>strings\<close> that \<open>safeSplit\<close> calls, with the separator of
  \<open>Split\<close> fixed to the single space the source passes.
\<close>

definition HasPrefix :: "string \<Rightarrow> string \<Rightarrow> bool" where
  "HasPrefix s prefix = (take (length prefix) s = prefix)"

definition HasSuffix :: "string \<Rightarrow> string \<Rightarrow> bool" where
  "HasSuffix s suffix =
     (length suffix \<le> length s \<and> drop (length s - length suffix) s = suffix)"

definition TrimPrefix :: "string \<Rightarrow> string \<Rightarrow> string" where
  "TrimPrefix s prefix = (if HasPrefix s prefix then drop (length prefix) s else s)"

definition TrimSuffix :: "string \<Rightarrow> string \<Rightarrow> string" where
  "TrimSuffix s suffix =
     (if HasSuffix s suffix then take (length s - length suffix) s else s)"

text \<open>
  \<open>strings.Split(s, " ")\<close>: one word per space-delimited field, so that a string with
  \<open>n\<close> spaces has \<open>n + 1\<close> words and the empty string has the single word \<open>""\<close>.
\<close>

fun Split :: "string \<Rightarrow> string list" where
  "Split [] = [[]]"
| "Split (c # cs) =
     (if c = CHR '' '' then [] # Split cs
      else (case Split cs of [] \<Rightarrow> [[c]] | w # ws \<Rightarrow> (c # w) # ws))"

text \<open>\<open>strings.Join(elems, sep)\<close>.\<close>

fun Join :: "string list \<Rightarrow> string \<Rightarrow> string" where
  "Join [] sep = []"
| "Join [x] sep = x"
| "Join (x # y # zs) sep = x @ sep @ Join (y # zs) sep"

section \<open>The tokenizer \<open>safeSplit\<close>\<close>

text \<open>
  The loop of \<open>safeSplit\<close> carries three variables: \<open>result\<close>, \<open>inquote\<close> (the empty
  string outside a quoted span, the one-character closing delimiter inside one) and
  \<open>block\<close>. \<open>safeSplit_step\<close> is one iteration of the loop body for the word \<open>i\<close>,
  \<open>safeSplit_loop\<close> the \<open>for ... range split\<close> loop.
\<close>

type_synonym split_state = "string list \<times> string \<times> string"

definition squote :: string where
  "squote = [CHR 0x27]"

definition dquote :: string where
  "dquote = [CHR 0x22]"

fun safeSplit_step :: "split_state \<Rightarrow> string \<Rightarrow> split_state" where
  "safeSplit_step (result, inquote, block) i =
     (if inquote = [] then
        (if HasPrefix i squote \<or> HasPrefix i dquote
         then (result, [i ! 0], TrimPrefix i [i ! 0] @ '' '')
         else (result @ [i], inquote, block))
      else
        (if \<not> HasSuffix i inquote
         then (result, inquote, block @ i @ '' '')
         else (result @ [block @ TrimSuffix i inquote], [], [])))"

fun safeSplit_loop :: "split_state \<Rightarrow> string list \<Rightarrow> split_state" where
  "safeSplit_loop st [] = st"
| "safeSplit_loop st (i # split) = safeSplit_loop (safeSplit_step st i) split"

definition safeSplit :: "string \<Rightarrow> string list" where
  "safeSplit s = fst (safeSplit_loop ([], [], []) (Split s))"

section \<open>Framework values\<close>

text \<open>
  \<open>types.String\<close> and \<open>types.List\<close> of the plugin framework are null, unknown or known.
  \<open>ValueString\<close> of a null or unknown string is the empty string.
\<close>

datatype tf_string = StringNull | StringUnknown | StringValue string

fun IsNull :: "tf_string \<Rightarrow> bool" where
  "IsNull StringNull = True"
| "IsNull _ = False"

fun IsUnknown :: "tf_string \<Rightarrow> bool" where
  "IsUnknown StringUnknown = True"
| "IsUnknown _ = False"

fun ValueString :: "tf_string \<Rightarrow> string" where
  "ValueString (StringValue s) = s"
| "ValueString _ = []"

datatype 'a tf_list = ListNull | ListUnknown | ListValue "'a list"

text \<open>One element of the computed attribute \<open>data\<close>: the nested object of the schema.\<close>

record artifact =
  path :: tf_string
  sha256 :: tf_string
  function_name :: tf_string

record BuildCommandModel =
  SourcePath :: tf_string
  Commands :: "tf_string tf_list"
  Data :: "artifact tf_list"

record BuildCommand =
  executable :: string

subsection \<open>Diagnostics\<close>

datatype diagnostic = ErrorDiagnostic string string | WarningDiagnostic string string

fun HasError :: "diagnostic list \<Rightarrow> bool" where
  "HasError [] = False"
| "HasError (ErrorDiagnostic summary detail # ds) = True"
| "HasError (WarningDiagnostic summary detail # ds) = HasError ds"

text \<open>\<open>Diagnostics.Append\<close> skips a diagnostic that the collection already contains.\<close>

fun Append :: "diagnostic list \<Rightarrow> diagnostic list \<Rightarrow> diagnostic list" where
  "Append diags [] = diags"
| "Append diags (d # ds) = Append (if d \<in> set diags then diags else diags @ [d]) ds"

definition AddError :: "diagnostic list \<Rightarrow> string \<Rightarrow> string \<Rightarrow> diagnostic list" where
  "AddError diags summary detail = Append diags [ErrorDiagnostic summary detail]"

text \<open>
  A request carries the plan; \<open>Plan\<close> is what \<open>req.Plan.Get(ctx, &data)\<close> yields: the
  diagnostics of the decoding and the decoded model. A response carries the diagnostics and
  the state the host persists after the call (\<open>None\<close>: nothing stored).
\<close>

record request =
  Plan :: "diagnostic list \<times> BuildCommandModel"

record response =
  Diagnostics :: "diagnostic list"
  State :: "BuildCommandModel option"

section \<open>The host: operating system and libraries\<close>

text \<open>
  The calls that leave the repository are fields of a \<open>host\<close>, over a state \<open>'w\<close> of the
  outside world (file system and processes) and a type \<open>'j\<close> of parsed JSON documents:
  \<^item> \<open>os_Stat w p\<close>: the error of \<open>os.Stat(p)\<close>, \<open>None\<close> on success;
  \<^item> \<open>os_ReadFile w p\<close>: the bytes \<open>os.ReadFile(p)\<close> returns (its error is discarded
    by the caller);
  \<^item> \<open>exec_LookPath w name\<close>: the path \<open>exec.Command\<close> resolves \<open>name\<close> to, \<open>None\<close>
    when the resolution fails;
  \<^item> \<open>exec_Output w name args dir\<close>: running the command in directory \<open>dir\<close>: the world
    afterwards, the captured standard output and the error (\<open>None\<close> for exit status 0);
  \<^item> \<open>path_Join\<close>: \<open>path.Join\<close>;
  \<^item> \<open>json_Unmarshal\<close>: \<open>json.Unmarshal\<close> into an empty interface, \<open>Inl\<close> the error;
  \<^item> \<open>ElementsAs\<close>: \<open>List.ElementsAs(ctx, &elements, false)\<close>, the diagnostics and the
    elements.
\<close>

datatype os_error = ErrNotExist | ErrOther string

type_synonym invocation = "string \<times> string list \<times> string"

record ('w, 'j) host =
  os_Stat :: "'w \<Rightarrow> string \<Rightarrow> os_error option"
  os_ReadFile :: "'w \<Rightarrow> string \<Rightarrow> string"
  exec_LookPath :: "'w \<Rightarrow> string \<Rightarrow> string option"
  exec_Output :: "'w \<Rightarrow> string \<Rightarrow> string list \<Rightarrow> string \<Rightarrow> 'w \<times> string \<times> string option"
  path_Join :: "string list \<Rightarrow> string"
  json_Unmarshal :: "string \<Rightarrow> string + 'j"
  ElementsAs :: "tf_string tf_list \<Rightarrow> diagnostic list \<times> tf_string list"

text \<open>\<open>exists\<close> of the source: found, not found, or an error of another kind.\<close>

definition exists :: "('w, 'j) host \<Rightarrow> 'w \<Rightarrow> string \<Rightarrow> bool \<times> os_error option" where
  "exists h w p =
     (case os_Stat h w p of
        None \<Rightarrow> (True, None)
      | Some err \<Rightarrow> (if err = ErrNotExist then (False, None) else (False, Some err)))"

text \<open>
  \<open>Cmd.String\<close>: the resolved path (the requested name when the resolution failed)
  followed by the arguments, separated by single spaces.
\<close>

definition Cmd_String :: "('w, 'j) host \<Rightarrow> 'w \<Rightarrow> string \<Rightarrow> string list \<Rightarrow> string" where
  "Cmd_String h w name args =
     Join ((case exec_LookPath h w name of None \<Rightarrow> name | Some p \<Rightarrow> p) # args) '' ''"

section \<open>The resource \<open>BuildCommand\<close>\<close>

text \<open>
  The command loop of \<open>Create\<close>. It returns the world after the last command that ran, the
  commands that ran, in the order they ran, and the summary and detail of the error
  diagnostic of a failed command (\<open>None\<close> when every command succeeded).
\<close>

fun Create_loop ::
  "('w, 'j) host \<Rightarrow> string \<Rightarrow> string \<Rightarrow> 'w \<Rightarrow> tf_string list
     \<Rightarrow> 'w \<times> invocation list \<times> (string \<times> string) option" where
  "Create_loop h exe dir w [] = (w, [], None)"
| "Create_loop h exe dir w (element # elements) =
     (case exec_Output h w exe (safeSplit (ValueString element)) dir of
        (w', result, Some err) \<Rightarrow>
          (w', [(exe, safeSplit (ValueString element), dir)],
           Some (''Could not execute Command: ''
                   @ Cmd_String h w exe (safeSplit (ValueString element)), err))
      | (w', result, None) \<Rightarrow>
          (case Create_loop h exe dir w' elements of
             (w'', trace, failure) \<Rightarrow>
               (w'', (exe, safeSplit (ValueString element), dir) # trace, failure)))"

definition placeholder :: "artifact tf_list" where
  "placeholder =
     ListValue [\<lparr>path = StringValue ''value1'', sha256 = StringValue ''value2'',
                 function_name = StringValue ''value3''\<rparr>]"

text \<open>
  \<open>Create\<close> returns the world after the call, the commands it ran and the response.
  Logging is left out: it changes neither. The object and list constructors of the
  framework are applied to matching types and \<open>State.Set\<close> to a well-typed model, so
  they yield no diagnostics; the parsed document \<open>nextJSState\<close> is only logged.
\<close>

definition Create ::
  "('w, 'j) host \<Rightarrow> BuildCommand \<Rightarrow> 'w \<Rightarrow> request \<Rightarrow> response
     \<Rightarrow> 'w \<times> invocation list \<times> response" where
  "Create h r w req resp =
     (let data = snd (Plan req);
          diags = Append (Diagnostics resp) (fst (Plan req));
          resp = resp\<lparr>Diagnostics := diags\<rparr>;
          dir = ValueString (SourcePath data)
      in
      if HasError diags then (w, [], resp)
      else if IsNull (SourcePath data) \<or> IsUnknown (SourcePath data) then
        (w, [], resp\<lparr>Diagnostics := AddError diags ''Source Path needed''
                        ''Source Path needed in order to create Functions''\<rparr>)
      else if \<not> fst (exists h w dir) \<or> snd (exists h w dir) \<noteq> None then
        (w, [], resp\<lparr>Diagnostics := AddError diags ''Source Path is not Valid''
           ''The Source Path either does not exist, or Terraform cannot access the Path.''\<rparr>)
      else if HasError (fst (ElementsAs h (Commands data))) then (w, [], resp)
      else
        (case Create_loop h (executable r) dir w (snd (ElementsAs h (Commands data))) of
           (w', trace, Some (summary, detail)) \<Rightarrow>
             (w', trace, resp\<lparr>Diagnostics := AddError diags summary detail\<rparr>)
         | (w', trace, None) \<Rightarrow>
             (let nextJSStateFile =
                    path_Join h [dir, ''.serverless'', ''serverless-state.json'']
              in
              if \<not> fst (exists h w' nextJSStateFile)
                   \<or> snd (exists h w' nextJSStateFile) \<noteq> None then
                (w', trace, resp\<lparr>Diagnostics := AddError diags ''Source Path is not Valid''
                   ''The Source Path either does not exist, or Terraform cannot access the Path.''\<rparr>)
              else
                (case json_Unmarshal h (os_ReadFile h w' nextJSStateFile) of
                   Inl err \<Rightarrow>
                     (w', trace,
                      resp\<lparr>Diagnostics := AddError diags ''Unable to parse NextJS State''
                        (''The File: '' @ nextJSStateFile
                           @ '' could not be read and the following error was produced: ''
                           @ err @ ''.'')\<rparr>)
                 | Inr nextJSState \<Rightarrow>
                     (w', trace, resp\<lparr>State := Some (data\<lparr>Data := placeholder\<rparr>)\<rparr>)))))"

text \<open>
  \<open>Update\<close> decodes the plan and stores it. It calls neither the operating system nor the
  build tool: the world is returned as it was and no command is recorded.
\<close>

definition Update ::
  "('w, 'j) host \<Rightarrow> BuildCommand \<Rightarrow> 'w \<Rightarrow> request \<Rightarrow> response
     \<Rightarrow> 'w \<times> invocation list \<times> response" where
  "Update h r w req resp =
     (let data = snd (Plan req);
          diags = Append (Diagnostics resp) (fst (Plan req));
          resp = resp\<lparr>Diagnostics := diags\<rparr>
      in
      if HasError diags then (w, [], resp)
      else (w, [], resp\<lparr>State := Some data\<rparr>))"

section \<open>An example host\<close>

text \<open>
  A small concrete host on which the operations can be evaluated. The world is the list of
  the paths that exist, each with its content. The build tool accepts the three default
  commands of the schema and fails on everything else; \<open>run-script package\<close> writes the
  state file. \<open>example_Join\<close> agrees with \<open>path.Join\<close> on the non-empty, already clean
  elements it is applied to here, and \<open>example_Unmarshal\<close> with \<open>json.Unmarshal\<close> on the
  one well-formed document and on the malformed one used below.
\<close>

datatype json =
  JNull | JBool bool | JNumber int | JString string
  | JArray "json list" | JObject "(string \<times> json) list"

type_synonym files = "(string \<times> string) list"

definition state_text :: string where
  "state_text = ''{\"artifacts\":[{\"path\":\"a.zip\",\"sha\":\"abc\",\"fn\":\"f1\"}]}''"

definition state_doc :: json where
  "state_doc =
     JObject [(''artifacts'',
       JArray [JObject [(''path'', JString ''a.zip''), (''sha'', JString ''abc''),
                        (''fn'', JString ''f1'')]])]"

definition example_Stat :: "files \<Rightarrow> string \<Rightarrow> os_error option" where
  "example_Stat w p = (case map_of w p of None \<Rightarrow> Some ErrNotExist | Some content \<Rightarrow> None)"

definition example_ReadFile :: "files \<Rightarrow> string \<Rightarrow> string" where
  "example_ReadFile w p = (case map_of w p of None \<Rightarrow> [] | Some content \<Rightarrow> content)"

definition example_LookPath :: "files \<Rightarrow> string \<Rightarrow> string option" where
  "example_LookPath w name = Some (''/usr/bin/'' @ name)"

definition example_Output ::
  "files \<Rightarrow> string \<Rightarrow> string list \<Rightarrow> string \<Rightarrow> files \<times> string \<times> string option" where
  "example_Output w name args dir =
     (if args = [''install'', ''--cache'', ''.npm'', ''--prefer-offline'']
        then ((dir @ ''/node_modules'', []) # w, ''installed'', None)
      else if args = [''run-script'', ''build'']
        then ((dir @ ''/.next'', []) # w, ''built'', None)
      else if args = [''run-script'', ''package'']
        then ((dir @ ''/.serverless/serverless-state.json'', state_text) # w,
              ''packaged'', None)
      else if args = [''run-script'', ''corrupt'']
        then ((dir @ ''/.serverless/serverless-state.json'', ''{'') # w, ''packaged'', None)
      else (w, [], Some ''exit status 1''))"

definition example_Join :: "string list \<Rightarrow> string" where
  "example_Join elem = Join elem ''/''"

definition example_Unmarshal :: "string \<Rightarrow> string + json" where
  "example_Unmarshal text =
     (if text = state_text then Inr state_doc else Inl ''unexpected end of JSON input'')"

definition example_ElementsAs :: "tf_string tf_list \<Rightarrow> diagnostic list \<times> tf_string list" where
  "example_ElementsAs l =
     (case l of
        ListValue elements \<Rightarrow> ([], elements)
      | _ \<Rightarrow> ([ErrorDiagnostic ''Value Conversion Error'' ''unhandled null or unknown value''],
              []))"

definition example_host :: "(files, json) host" where
  "example_host =
     \<lparr>os_Stat = example_Stat, os_ReadFile = example_ReadFile,
      exec_LookPath = example_LookPath, exec_Output = example_Output,
      path_Join = example_Join, json_Unmarshal = example_Unmarshal,
      ElementsAs = example_ElementsAs\<rparr>"

definition npm :: BuildCommand where
  "npm = \<lparr>executable = ''npm''\<rparr>"

definition app_world :: files where
  "app_world = [(''/app'', [])]"

definition example_model :: "string list \<Rightarrow> BuildCommandModel" where
  "example_model commands =
     \<lparr>SourcePath = StringValue ''/app'', Commands = ListValue (map StringValue commands),
      Data = ListUnknown\<rparr>"

definition example_request :: "string list \<Rightarrow> request" where
  "example_request commands = \<lparr>Plan = ([], example_model commands)\<rparr>"

definition default_commands :: "string list" where
  "default_commands =
     [''install --cache .npm --prefer-offline'', ''run-script build'', ''run-script package'']"

definition empty_response :: response where
  "empty_response = \<lparr>Diagnostics = [], State = None\<rparr>"

text \<open>The response of an update starts from the state stored by the preceding create.\<close>

definition stored_response :: response where
  "stored_response =
     \<lparr>Diagnostics = [], State = Some ((example_model default_commands)\<lparr>Data := placeholder\<rparr>)\<rparr>"

section \<open>Properties of the string primitives\<close>

lemma Split_not_Nil: "Split s \<noteq> []"
  by (induction s) (auto split: list.splits)

lemma Join_Cons: "ws \<noteq> [] \<Longrightarrow> Join (w # ws) sep = w @ sep @ Join ws sep"
  by (cases ws) simp_all

lemma Join_Split: "Join (Split s) '' '' = s"
proof (induction s)
  case Nil
  show ?case by simp
next
  case (Cons c cs)
  show ?case
  proof (cases "c = CHR '' ''")
    case True
    with Cons show ?thesis by (simp add: Join_Cons Split_not_Nil)
  next
    case False
    obtain w ws where sp: "Split cs = w # ws"
      using Split_not_Nil [of cs] by (cases "Split cs") auto
    have "Join ((c # w) # ws) '' '' = c # Join (w # ws) '' ''"
      by (cases ws) simp_all
    with Cons False sp show ?thesis by simp
  qed
qed

lemma Split_word: "CHR '' '' \<notin> set w \<Longrightarrow> Split w = [w]"
  by (induction w) auto

lemma Split_word_space:
  "CHR '' '' \<notin> set w \<Longrightarrow> Split (w @ CHR '' '' # s) = w # Split s"
  by (induction w) auto

lemma Split_Join:
  "ws \<noteq> [] \<Longrightarrow> \<forall>w \<in> set ws. CHR '' '' \<notin> set w \<Longrightarrow> Split (Join ws '' '') = ws"
proof (induction ws)
  case Nil
  then show ?case by simp
next
  case (Cons w ws)
  show ?case
  proof (cases "ws = []")
    case True
    with Cons.prems show ?thesis by (simp add: Split_word)
  next
    case False
    with Cons show ?thesis by (simp add: Join_Cons Split_word_space)
  qed
qed

lemma Join_span:
  "Join (w0 # mid @ [wl]) '' '' = w0 @ '' '' @ concat (map (\<lambda>w. w @ '' '') mid) @ wl"
  by (induction mid arbitrary: w0) simp_all

section \<open>Properties of the tokenizer loop\<close>

lemma loop_append:
  "safeSplit_loop st (xs @ ys) = safeSplit_loop (safeSplit_loop st xs) ys"
  by (induction xs arbitrary: st) simp_all

lemma loop_snoc: "safeSplit_loop st (ws @ [w]) = safeSplit_step (safeSplit_loop st ws) w"
  by (simp add: loop_append)

lemma loop_outside:
  "\<forall>w \<in> set ws. \<not> HasPrefix w squote \<and> \<not> HasPrefix w dquote \<Longrightarrow>
   safeSplit_loop (res, [], blk) ws = (res @ ws, [], blk)"
  by (induction ws arbitrary: res) simp_all

lemma loop_inside:
  "inquote \<noteq> [] \<Longrightarrow> \<forall>w \<in> set ws. \<not> HasSuffix w inquote \<Longrightarrow>
   safeSplit_loop (res, inquote, blk) ws =
     (res, inquote, blk @ concat (map (\<lambda>w. w @ '' '') ws))"
  by (induction ws arbitrary: blk) simp_all

lemma step_open:
  "q = squote \<or> q = dquote \<Longrightarrow>
   safeSplit_step (res, [], blk) (q @ w) = (res, q, w @ '' '')"
  by (auto simp: HasPrefix_def TrimPrefix_def squote_def dquote_def)

lemma step_close:
  "q \<noteq> [] \<Longrightarrow> safeSplit_step (res, q, blk) (w @ q) = (res @ [blk @ w], [], [])"
  by (simp add: HasSuffix_def TrimSuffix_def)

lemma quote_not_Nil: "q = squote \<or> q = dquote \<Longrightarrow> q \<noteq> []"
  by (auto simp: squote_def dquote_def)

lemma loop_span:
  assumes q: "q = squote \<or> q = dquote"
    and mid: "\<forall>m \<in> set mid. \<not> HasSuffix m q"
  shows "safeSplit_loop (res, [], blk) ((q @ w0) # mid @ [wl @ q]) =
           (res @ [Join (w0 # mid @ [wl]) '' ''], [], [])"
proof -
  have ne: "q \<noteq> []" using q by (rule quote_not_Nil)
  have "safeSplit_loop (res, [], blk) ((q @ w0) # mid @ [wl @ q]) =
          safeSplit_step (safeSplit_loop (res, q, w0 @ '' '') mid) (wl @ q)"
    by (simp add: step_open [OF q] loop_append del: safeSplit_step.simps)
  also have "\<dots> = safeSplit_step (res, q, (w0 @ '' '') @ concat (map (\<lambda>w. w @ '' '') mid)) (wl @ q)"
    by (simp only: loop_inside [OF ne mid])
  also have "\<dots> = (res @ [((w0 @ '' '') @ concat (map (\<lambda>w. w @ '' '') mid)) @ wl], [], [])"
    by (rule step_close [OF ne])
  finally show ?thesis by (simp add: Join_span)
qed

lemma loop_dropped:
  assumes q: "q = squote \<or> q = dquote"
    and rest: "\<forall>w \<in> set rest. \<not> HasSuffix w q"
  shows "fst (safeSplit_loop (res, [], blk) ((q @ w0) # rest)) = res"
proof -
  have ne: "q \<noteq> []" using q by (rule quote_not_Nil)
  have "safeSplit_loop (res, [], blk) ((q @ w0) # rest) = safeSplit_loop (res, q, w0 @ '' '') rest"
    by (simp add: step_open [OF q] del: safeSplit_step.simps)
  then show ?thesis by (simp add: loop_inside [OF ne rest])
qed

lemma loop_block_empty:
  "safeSplit_loop ([], [], []) ws = (result, [], block) \<Longrightarrow> block = []"
proof (induction ws arbitrary: result block rule: rev_induct)
  case Nil
  then show ?case by simp
next
  case (snoc w ws)
  obtain r q b where st: "safeSplit_loop ([], [], []) ws = (r, q, b)"
    by (cases "safeSplit_loop ([], [], []) ws") auto
  show ?case
  proof (cases "q = []")
    case True
    with st snoc.IH have "b = []" by simp
    with snoc.prems st True show ?thesis
      by (simp add: loop_snoc split: if_splits)
  next
    case False
    with snoc.prems st show ?thesis
      by (simp add: loop_snoc split: if_splits)
  qed
qed

lemma loop_unterminated:
  "safeSplit_loop ([], [], []) ws = (result, inquote, block) \<Longrightarrow> inquote \<noteq> [] \<Longrightarrow>
   \<exists>pre w rest. ws = pre @ w # rest
     \<and> (HasPrefix w squote \<or> HasPrefix w dquote) \<and> inquote = [w ! 0]
     \<and> (\<forall>x \<in> set rest. \<not> HasSuffix x inquote)
     \<and> safeSplit_loop ([], [], []) pre = (result, [], [])
     \<and> block = concat (map (\<lambda>x. x @ '' '') (TrimPrefix w inquote # rest))"
proof (induction ws arbitrary: result inquote block rule: rev_induct)
  case Nil
  then show ?case by simp
next
  case (snoc w ws)
  obtain r q b where st: "safeSplit_loop ([], [], []) ws = (r, q, b)"
    by (cases "safeSplit_loop ([], [], []) ws") auto
  show ?case
  proof (cases "q = []")
    case True
    with st have b: "b = []" using loop_block_empty by simp
    from snoc.prems st True b
    have "(HasPrefix w squote \<or> HasPrefix w dquote) \<and> result = r \<and> inquote = [w ! 0]
            \<and> block = TrimPrefix w [w ! 0] @ '' ''"
      by (auto simp: loop_snoc split: if_splits)
    with st True b show ?thesis
      by (intro exI [of _ ws] exI [of _ w] exI [of _ "[]"]) simp
  next
    case False
    from snoc.prems st False
    have new: "\<not> HasSuffix w q \<and> result = r \<and> inquote = q \<and> block = b @ w @ '' ''"
      by (auto simp: loop_snoc split: if_splits)
    from snoc.IH [OF st False] obtain pre w0 rest where
      IH: "ws = pre @ w0 # rest" "HasPrefix w0 squote \<or> HasPrefix w0 dquote" "q = [w0 ! 0]"
        "\<forall>x \<in> set rest. \<not> HasSuffix x q" "safeSplit_loop ([], [], []) pre = (r, [], [])"
        "b = concat (map (\<lambda>x. x @ '' '') (TrimPrefix w0 q # rest))"
      by blast
    with new show ?thesis
      by (intro exI [of _ pre] exI [of _ w0] exI [of _ "rest @ [w]"]) simp
  qed
qed

lemmas eval_defs =
  safeSplit_def HasPrefix_def HasSuffix_def TrimPrefix_def TrimSuffix_def squote_def dquote_def

section \<open>Diagnostics\<close>

lemma no_error_member: "\<not> HasError ds \<Longrightarrow> ErrorDiagnostic summary detail \<notin> set ds"
  by (induction ds rule: HasError.induct) auto

lemma AddError_fresh:
  "\<not> HasError ds \<Longrightarrow> AddError ds summary detail = ds @ [ErrorDiagnostic summary detail]"
  by (simp add: AddError_def no_error_member)

lemma HasError_append: "HasError (ds @ es) = (HasError ds \<or> HasError es)"
  by (induction ds rule: HasError.induct) auto

lemma HasError_AddError: "HasError (AddError ds summary detail)"
  using no_error_member [of ds summary detail]
  by (auto simp: AddError_def HasError_append)

section \<open>The command loop\<close>

lemma Create_loop_success:
  "Create_loop h exe dir w es = (w', trace, None) \<Longrightarrow>
   trace = map (\<lambda>e. (exe, safeSplit (ValueString e), dir)) es"
proof (induction es arbitrary: w trace)
  case Nil
  then show ?case by simp
next
  case (Cons e es)
  then show ?case
    by (auto split: prod.splits option.splits)
qed

lemma Create_loop_failure:
  assumes "Create_loop h exe dir w pre = (wk, trace, None)"
    and "exec_Output h wk exe (safeSplit (ValueString c)) dir = (w', out, Some err)"
  shows "Create_loop h exe dir w (pre @ c # post) =
           (w', map (\<lambda>e. (exe, safeSplit (ValueString e), dir)) (pre @ [c]),
            Some (''Could not execute Command: ''
                    @ Cmd_String h wk exe (safeSplit (ValueString c)), err))"
  using assms
proof (induction pre arbitrary: w trace)
  case Nil
  then show ?case by simp
next
  case (Cons e es)
  then show ?case
    by (auto split: prod.splits option.splits)
qed

lemma Create_loop_failure_at:
  assumes k: "k < length es"
    and ok: "Create_loop h exe dir w (take k es) = (wk, trace, None)"
    and bad: "exec_Output h wk exe (safeSplit (ValueString (es ! k))) dir = (w', out, Some err)"
  shows "Create_loop h exe dir w es =
           (w', map (\<lambda>e. (exe, safeSplit (ValueString e), dir)) (take (Suc k) es),
            Some (''Could not execute Command: ''
                    @ Cmd_String h wk exe (safeSplit (ValueString (es ! k))), err))"
proof -
  from k have es: "es = take k es @ es ! k # drop (Suc k) es"
    by (rule id_take_nth_drop)
  from k have tk: "take (Suc k) es = take k es @ [es ! k]"
    by (rule take_Suc_conv_app_nth)
  from Create_loop_failure [OF ok bad, of "drop (Suc k) es"] es tk show ?thesis
    by simp
qed

section \<open>The checks of \<open>Create\<close> and evaluation on the example host\<close>

lemma exists_found: "os_Stat h w p = None \<Longrightarrow> exists h w p = (True, None)"
  by (simp add: exists_def)

lemma exists_failed:
  "os_Stat h w p \<noteq> None \<Longrightarrow> \<not> fst (exists h w p) \<or> snd (exists h w p) \<noteq> None"
  by (auto simp: exists_def split: option.splits)

lemmas example_defs =
  example_host_def example_Stat_def example_ReadFile_def example_LookPath_def
  example_Output_def example_Join_def example_Unmarshal_def example_ElementsAs_def
  npm_def app_world_def example_model_def example_request_def default_commands_def
  empty_response_def state_text_def

lemmas Create_eval =
  Create_def Let_def exists_def Cmd_String_def AddError_def safeSplit_def HasPrefix_def HasSuffix_def
  TrimPrefix_def TrimSuffix_def squote_def dquote_def

section \<open>The tokenizer claims\<close>

text \<open>
  Claim C7. The tokenizer yields the three example vectors of the specification. In
  general, a quoted span of two or more words, opened by a word that starts with a quote
  character \<open>q\<close> and closed by the first later word that ends with \<open>q\<close>, becomes one
  token: its words joined by single spaces, without the two delimiting quote characters.
  The words before and after the span, which start with no quote character, are tokens of
  their own.
\<close>
theorem safeSplit_examples:
  "safeSplit ''install --cache .npm --prefer-offline''
     = [''install'', ''--cache'', ''.npm'', ''--prefer-offline'']
   \<and> safeSplit ''run 'hello world' --flag'' = [''run'', ''hello world'', ''--flag'']
   \<and> safeSplit ''run \"a b\" c'' = [''run'', ''a b'', ''c'']
   \<and> (\<forall>q pre w0 mid wl post.
         (q = squote \<or> q = dquote)
         \<and> (\<forall>w \<in> set (pre @ [w0] @ mid @ [wl] @ post). CHR '' '' \<notin> set w)
         \<and> (\<forall>w \<in> set (pre @ post). \<not> HasPrefix w squote \<and> \<not> HasPrefix w dquote)
         \<and> (\<forall>m \<in> set mid. \<not> HasSuffix m q)
         \<longrightarrow> safeSplit (Join (pre @ [q @ w0] @ mid @ [wl @ q] @ post) '' '')
               = pre @ [Join (w0 # mid @ [wl]) '' ''] @ post)"
proof (intro conjI allI impI)
  show "safeSplit ''install --cache .npm --prefer-offline''
     = [''install'', ''--cache'', ''.npm'', ''--prefer-offline'']"
    by (simp add: eval_defs)
  show "safeSplit ''run 'hello world' --flag'' = [''run'', ''hello world'', ''--flag'']"
    by (simp add: eval_defs)
  show "safeSplit ''run \"a b\" c'' = [''run'', ''a b'', ''c'']"
    by (simp add: eval_defs)
next
  fix q pre w0 mid wl post
  assume a: "(q = squote \<or> q = dquote)
         \<and> (\<forall>w \<in> set (pre @ [w0] @ mid @ [wl] @ post). CHR '' '' \<notin> set w)
         \<and> (\<forall>w \<in> set (pre @ post). \<not> HasPrefix w squote \<and> \<not> HasPrefix w dquote)
         \<and> (\<forall>m \<in> set mid. \<not> HasSuffix m q)"
  then have q: "q = squote \<or> q = dquote" and mid: "\<forall>m \<in> set mid. \<not> HasSuffix m q"
    and pre: "\<forall>w \<in> set pre. \<not> HasPrefix w squote \<and> \<not> HasPrefix w dquote"
    and post: "\<forall>w \<in> set post. \<not> HasPrefix w squote \<and> \<not> HasPrefix w dquote"
    by auto
  have qsp: "CHR '' '' \<notin> set q" using q by (auto simp: squote_def dquote_def)
  let ?ws = "pre @ [q @ w0] @ mid @ [wl @ q] @ post"
  have "\<forall>w \<in> set ?ws. CHR '' '' \<notin> set w" using a qsp by auto
  then have sp: "Split (Join ?ws '' '') = ?ws" by (intro Split_Join) simp_all
  have "?ws = pre @ ((q @ w0) # mid @ [wl @ q]) @ post" by simp
  then have "safeSplit_loop ([], [], []) ?ws =
          safeSplit_loop (safeSplit_loop (safeSplit_loop ([], [], []) pre)
             ((q @ w0) # mid @ [wl @ q])) post"
    by (simp only: loop_append)
  also have "\<dots> = (pre @ [Join (w0 # mid @ [wl]) '' ''] @ post, [], [])"
    by (simp only: loop_outside [OF pre] loop_span [OF q mid] loop_outside [OF post]) simp
  finally show "safeSplit (Join ?ws '' '') = pre @ [Join (w0 # mid @ [wl]) '' ''] @ post"
    by (simp only: safeSplit_def sp fst_conv)
qed

text \<open>The general part of C7 at \<open>echo "a b c" x\<close>, a span of three words.\<close>
theorem safeSplit_examples_witness:
  "safeSplit ''echo \"a b c\" x'' = [''echo'', ''a b c'', ''x'']"
proof -
  have span: "\<forall>q pre w0 mid wl post.
         (q = squote \<or> q = dquote)
         \<and> (\<forall>w \<in> set (pre @ [w0] @ mid @ [wl] @ post). CHR '' '' \<notin> set w)
         \<and> (\<forall>w \<in> set (pre @ post). \<not> HasPrefix w squote \<and> \<not> HasPrefix w dquote)
         \<and> (\<forall>m \<in> set mid. \<not> HasSuffix m q)
         \<longrightarrow> safeSplit (Join (pre @ [q @ w0] @ mid @ [wl @ q] @ post) '' '')
               = pre @ [Join (w0 # mid @ [wl]) '' ''] @ post"
    by (rule conjunct2 [OF conjunct2 [OF conjunct2 [OF safeSplit_examples]]])
  show ?thesis
    using span [rule_format, of dquote "[''echo'']" "''a''" "[''b'']" "''c''" "[''x'']"]
    by (simp add: HasPrefix_def HasSuffix_def squote_def dquote_def)
qed

text \<open>
  Claim C8. When the input ends while the loop is still inside a quoted span, the result
  is the list of tokens completed before the word \<open>w\<close> that opened the span: the words
  split into \<open>pre\<close>, \<open>w\<close> and \<open>rest\<close>, the loop over \<open>pre\<close> alone ends outside a quote
  with exactly the returned tokens, and the span (\<open>w\<close> without its quote character, then
  \<open>rest\<close>) sits in the buffer \<open>block\<close>, which is not returned. The function returns a
  plain list: there is no error value.
\<close>
theorem safeSplit_unterminated:
  assumes "safeSplit_loop ([], [], []) (Split s) = (result, inquote, block)"
    and "inquote \<noteq> []"
  shows "safeSplit s = result
     \<and> (\<exists>pre w rest. Split s = pre @ w # rest
          \<and> (HasPrefix w squote \<or> HasPrefix w dquote) \<and> inquote = [w ! 0]
          \<and> (\<forall>x \<in> set rest. \<not> HasSuffix x inquote)
          \<and> safeSplit_loop ([], [], []) pre = (result, [], [])
          \<and> block = concat (map (\<lambda>x. x @ '' '') (TrimPrefix w inquote # rest)))"
  using assms loop_unterminated [of "Split s" result inquote block]
  by (simp add: safeSplit_def)

text \<open>C8 at \<open>run --flag 'hello big world\<close>: the three quoted words are lost.\<close>
theorem safeSplit_unterminated_witness:
  "safeSplit ''run --flag 'hello big world'' = [''run'', ''--flag'']"
proof -
  have run: "safeSplit_loop ([], [], []) (Split ''run --flag 'hello big world'')
               = ([''run'', ''--flag''], squote, ''hello big world '')"
    by (simp add: eval_defs)
  have open_quote: "squote \<noteq> []"
    by (simp add: squote_def)
  from safeSplit_unterminated [OF run open_quote] show ?thesis
    by (rule conjunct1)
qed

text \<open>
  Claim C9. For a command none of whose words starts with a single or double quote
  character, joining the tokens with single spaces and tokenizing again gives the same
  tokens.
\<close>
theorem safeSplit_rejoin:
  assumes "\<forall>w \<in> set (Split s). \<not> HasPrefix w squote \<and> \<not> HasPrefix w dquote"
  shows "safeSplit (Join (safeSplit s) '' '') = safeSplit s"
proof -
  from assms have "safeSplit s = Split s"
    by (simp add: safeSplit_def loop_outside)
  then show ?thesis by (simp add: Join_Split)
qed

text \<open>C9 at a command with two consecutive spaces, which has an empty token.\<close>
theorem safeSplit_rejoin_witness:
  "safeSplit (Join (safeSplit ''install  --cache .npm'') '' '') = safeSplit ''install  --cache .npm''
   \<and> safeSplit ''install  --cache .npm'' = [''install'', [], ''--cache'', ''.npm'']"
proof -
  have plain: "\<forall>w \<in> set (Split ''install  --cache .npm'').
                 \<not> HasPrefix w squote \<and> \<not> HasPrefix w dquote"
    by (simp add: HasPrefix_def squote_def dquote_def)
  have "safeSplit ''install  --cache .npm'' = [''install'', [], ''--cache'', ''.npm'']"
    by (simp add: eval_defs)
  with safeSplit_rejoin [OF plain] show ?thesis by simp
qed

text \<open>
  Claim C10. A word that starts and ends with the same quote character \<open>q\<close> opens a
  quoted span: the loop body does not look at the end of the word that opens the span,
  and the closing character stays in the buffer. If no later word ends with \<open>q\<close>, the
  word and everything after it are dropped, so that the tokens are those before it; in
  particular \<open>run 'x'\<close> yields the single token \<open>run\<close>.
\<close>
theorem safeSplit_quoted_word:
  "(\<forall>q x res blk. (q = squote \<or> q = dquote)
       \<longrightarrow> safeSplit_step (res, [], blk) (q @ x @ q) = (res, q, x @ q @ '' ''))
   \<and> (\<forall>q x pre rest.
         (q = squote \<or> q = dquote)
         \<and> (\<forall>w \<in> set (pre @ [x] @ rest). CHR '' '' \<notin> set w)
         \<and> (\<forall>w \<in> set pre. \<not> HasPrefix w squote \<and> \<not> HasPrefix w dquote)
         \<and> (\<forall>w \<in> set rest. \<not> HasSuffix w q)
         \<longrightarrow> safeSplit (Join (pre @ [q @ x @ q] @ rest) '' '') = pre)
   \<and> safeSplit (''run 'x'' @ squote) = [''run'']"
proof (intro conjI allI impI)
  fix q x res blk
  assume "q = squote \<or> q = dquote"
  then show "safeSplit_step (res, [], blk) (q @ x @ q) = (res, q, x @ q @ '' '')"
    using step_open [of q res blk "x @ q"] by simp
next
  fix q x pre rest
  assume a: "(q = squote \<or> q = dquote)
         \<and> (\<forall>w \<in> set (pre @ [x] @ rest). CHR '' '' \<notin> set w)
         \<and> (\<forall>w \<in> set pre. \<not> HasPrefix w squote \<and> \<not> HasPrefix w dquote)
         \<and> (\<forall>w \<in> set rest. \<not> HasSuffix w q)"
  then have q: "q = squote \<or> q = dquote" and rest: "\<forall>w \<in> set rest. \<not> HasSuffix w q"
    and pre: "\<forall>w \<in> set pre. \<not> HasPrefix w squote \<and> \<not> HasPrefix w dquote"
    by auto
  have qsp: "CHR '' '' \<notin> set q" using q by (auto simp: squote_def dquote_def)
  let ?ws = "pre @ [q @ x @ q] @ rest"
  have "\<forall>w \<in> set ?ws. CHR '' '' \<notin> set w" using a qsp by auto
  then have sp: "Split (Join ?ws '' '') = ?ws" by (intro Split_Join) simp_all
  have "?ws = pre @ ((q @ x @ q) # rest)" by simp
  then have "fst (safeSplit_loop ([], [], []) ?ws) =
          fst (safeSplit_loop (safeSplit_loop ([], [], []) pre) ((q @ x @ q) # rest))"
    by (simp only: loop_append)
  also have "\<dots> = pre"
    by (simp only: loop_outside [OF pre] loop_dropped [OF q rest]) simp
  finally show "safeSplit (Join ?ws '' '') = pre"
    by (simp only: safeSplit_def sp)
next
  show "safeSplit (''run 'x'' @ squote) = [''run'']"
    by (simp add: eval_defs)
qed

text \<open>C10 at \<open>run "x" --flag\<close>.\<close>
theorem safeSplit_quoted_word_witness:
  "safeSplit_step ([''run''], [], []) (dquote @ ''x'' @ dquote) = ([''run''], dquote, ''x'' @ dquote @ '' '')
   \<and> safeSplit (''run '' @ dquote @ ''x'' @ dquote @ '' --flag'') = [''run'']"
proof -
  have enter: "\<forall>q x res blk. (q = squote \<or> q = dquote)
       \<longrightarrow> safeSplit_step (res, [], blk) (q @ x @ q) = (res, q, x @ q @ '' '')"
    by (rule conjunct1 [OF safeSplit_quoted_word])
  have dropped: "\<forall>q x pre rest.
         (q = squote \<or> q = dquote)
         \<and> (\<forall>w \<in> set (pre @ [x] @ rest). CHR '' '' \<notin> set w)
         \<and> (\<forall>w \<in> set pre. \<not> HasPrefix w squote \<and> \<not> HasPrefix w dquote)
         \<and> (\<forall>w \<in> set rest. \<not> HasSuffix w q)
         \<longrightarrow> safeSplit (Join (pre @ [q @ x @ q] @ rest) '' '') = pre"
    by (rule conjunct1 [OF conjunct2 [OF safeSplit_quoted_word]])
  have "safeSplit (Join ([''run''] @ [dquote @ ''x'' @ dquote] @ [''--flag'']) '' '') = [''run'']"
    using dropped [rule_format, of dquote "[''run'']" "''x''" "[''--flag'']"]
    by (simp add: HasPrefix_def HasSuffix_def squote_def dquote_def)
  then have "safeSplit (''run '' @ dquote @ ''x'' @ dquote @ '' --flag'') = [''run'']"
    by simp
  moreover have "safeSplit_step ([''run''], [], []) (dquote @ ''x'' @ dquote)
                   = ([''run''], dquote, ''x'' @ dquote @ '' '')"
    using enter [rule_format, of dquote "[''run'']" "[]" "''x''"] by simp
  ultimately show ?thesis by simp
qed

section \<open>The pipeline claims\<close>

text \<open>
  Claim C1, as the code has it. When the plan decodes without error, the source path is
  known and exists, every command succeeds, the state file exists and parses to a
  document \<open>doc\<close>, \<open>Create\<close> stores the planned model with \<open>data\<close> set to exactly one
  artifact whose path is \<open>value1\<close>, whose sha256 is \<open>value2\<close> and whose function name is
  \<open>value3\<close>, whatever \<open>doc\<close> is; every command of the list has run, in order.
\<close>
theorem Create_placeholder:
  assumes "\<not> HasError (Append (Diagnostics resp) (fst (Plan req)))"
    and "SourcePath (snd (Plan req)) = StringValue dir"
    and "os_Stat h w dir = None"
    and "\<not> HasError (fst (ElementsAs h (Commands (snd (Plan req)))))"
    and "Create_loop h (executable r) dir w (snd (ElementsAs h (Commands (snd (Plan req)))))
           = (w', trace, None)"
    and "os_Stat h w' (path_Join h [dir, ''.serverless'', ''serverless-state.json'']) = None"
    and "json_Unmarshal h
           (os_ReadFile h w' (path_Join h [dir, ''.serverless'', ''serverless-state.json'']))
           = Inr doc"
  shows "Create h r w req resp =
           (w', trace,
            \<lparr>Diagnostics = Append (Diagnostics resp) (fst (Plan req)),
             State = Some ((snd (Plan req))\<lparr>Data := placeholder\<rparr>)\<rparr>)
         \<and> trace = map (\<lambda>e. (executable r, safeSplit (ValueString e), dir))
                     (snd (ElementsAs h (Commands (snd (Plan req)))))"
proof -
  from assms have "Create h r w req resp =
           (w', trace,
            \<lparr>Diagnostics = Append (Diagnostics resp) (fst (Plan req)),
             State = Some ((snd (Plan req))\<lparr>Data := placeholder\<rparr>)\<rparr>)"
    by (simp add: Create_def exists_found)
  with Create_loop_success [OF assms(5)] show ?thesis
    by simp
qed

text \<open>C1 on the example host, with the single command \<open>run-script package\<close>.\<close>
theorem Create_placeholder_witness:
  "Create example_host npm app_world (example_request [''run-script package'']) empty_response =
     ([(''/app/.serverless/serverless-state.json'', state_text), (''/app'', [])],
      [(''npm'', [''run-script'', ''package''], ''/app'')],
      \<lparr>Diagnostics = [],
       State = Some \<lparr>SourcePath = StringValue ''/app'',
                     Commands = ListValue [StringValue ''run-script package''],
                     Data = placeholder\<rparr>\<rparr>)"
proof -
  let ?req = "example_request [''run-script package'']"
  let ?w' = "[(''/app/.serverless/serverless-state.json'', state_text), (''/app'', [])]"
  have 1: "\<not> HasError (Append (Diagnostics empty_response) (fst (Plan ?req)))"
    by (simp add: example_defs)
  have 2: "SourcePath (snd (Plan ?req)) = StringValue ''/app''"
    by (simp add: example_defs)
  have 3: "os_Stat example_host app_world ''/app'' = None"
    by (simp add: example_defs)
  have 4: "\<not> HasError (fst (ElementsAs example_host (Commands (snd (Plan ?req)))))"
    by (simp add: example_defs)
  have 5: "Create_loop example_host (executable npm) ''/app'' app_world
             (snd (ElementsAs example_host (Commands (snd (Plan ?req)))))
             = (?w', [(''npm'', [''run-script'', ''package''], ''/app'')], None)"
    by (simp add: Create_eval example_defs)
  have 6: "os_Stat example_host ?w'
             (path_Join example_host [''/app'', ''.serverless'', ''serverless-state.json''])
             = None"
    by (simp add: example_defs)
  have 7: "json_Unmarshal example_host
             (os_ReadFile example_host ?w'
                (path_Join example_host [''/app'', ''.serverless'', ''serverless-state.json'']))
             = Inr state_doc"
    by (simp add: example_defs)
  from Create_placeholder [OF 1 2 3 4 5 6 7] show ?thesis
    by (simp add: example_defs)
qed

text \<open>
  Claim C1 as stated fails: the source directory exists, the three default commands
  succeed and the state file holds the artifact entry with path \<open>a.zip\<close>, sha \<open>abc\<close> and
  fn \<open>f1\<close>, yet the stored artifact is the placeholder, which differs from that entry.
\<close>
theorem Create_extraction_counterexample:
  "Create example_host npm app_world (example_request default_commands) empty_response =
     ([(''/app/.serverless/serverless-state.json'', state_text), (''/app/.next'', []),
       (''/app/node_modules'', []), (''/app'', [])],
      [(''npm'', [''install'', ''--cache'', ''.npm'', ''--prefer-offline''], ''/app''),
       (''npm'', [''run-script'', ''build''], ''/app''),
       (''npm'', [''run-script'', ''package''], ''/app'')],
      \<lparr>Diagnostics = [],
       State = Some \<lparr>SourcePath = StringValue ''/app'',
                     Commands = ListValue (map StringValue default_commands),
                     Data = ListValue [\<lparr>path = StringValue ''value1'',
                                        sha256 = StringValue ''value2'',
                                        function_name = StringValue ''value3''\<rparr>]\<rparr>\<rparr>)
   \<and> json_Unmarshal example_host state_text = Inr state_doc
   \<and> ListValue [\<lparr>path = StringValue ''value1'', sha256 = StringValue ''value2'',
                   function_name = StringValue ''value3''\<rparr>]
       \<noteq> ListValue [\<lparr>path = StringValue ''a.zip'', sha256 = StringValue ''abc'',
                       function_name = StringValue ''f1''\<rparr>]"
  by (simp add: Create_eval example_defs placeholder_def)


text \<open>
  Claim C2, as the code has it. \<open>Update\<close> runs no command and leaves the world as it is.
  When decoding the plan reports no error it replaces the stored state by the planned
  model, unchanged; otherwise the stored state stays.
\<close>
theorem Update_stores_plan:
  "Update h r w req resp =
     (w, [],
      resp\<lparr>Diagnostics := Append (Diagnostics resp) (fst (Plan req)),
           State := (if HasError (Append (Diagnostics resp) (fst (Plan req)))
                     then State resp else Some (snd (Plan req)))\<rparr>)"
  by (simp add: Update_def Let_def)

text \<open>
  Claim C2 as stated fails: an update whose plan has the command \<open>run-script build\<close>
  runs nothing (a create with the same plan runs it) and stores the \<open>data\<close> of the plan,
  which is unknown, in place of the artifacts stored before.
\<close>
theorem Update_rerun_counterexample:
  "Update example_host npm app_world (example_request [''run-script build'']) stored_response =
     (app_world, [],
      \<lparr>Diagnostics = [],
       State = Some \<lparr>SourcePath = StringValue ''/app'',
                     Commands = ListValue [StringValue ''run-script build''],
                     Data = ListUnknown\<rparr>\<rparr>)
   \<and> fst (snd (Create example_host npm app_world (example_request [''run-script build''])
                 stored_response))
       = [(''npm'', [''run-script'', ''build''], ''/app'')]"
  by (simp add: Update_def Create_eval example_defs stored_response_def placeholder_def)

text \<open>
  Claim C3. When the checks before the loop pass, the commands \<open>0..k-1\<close> succeed and
  command \<open>k\<close> fails, \<open>Create\<close> has run exactly the commands \<open>0..k\<close>, in list order, and
  none after \<open>k\<close>; it reports one more error diagnostic, whose summary carries the text
  of command \<open>k\<close> and whose detail is the error of the run, and leaves the state alone.
\<close>
theorem Create_stops_at_first_failure:
  assumes "\<not> HasError (Append (Diagnostics resp) (fst (Plan req)))"
    and "SourcePath (snd (Plan req)) = StringValue dir"
    and "os_Stat h w dir = None"
    and "ElementsAs h (Commands (snd (Plan req))) = (ds, elements)"
    and "\<not> HasError ds"
    and "k < length elements"
    and "Create_loop h (executable r) dir w (take k elements) = (wk, tracek, None)"
    and "exec_Output h wk (executable r) (safeSplit (ValueString (elements ! k))) dir
           = (w', out, Some err)"
  shows "Create h r w req resp =
           (w', map (\<lambda>e. (executable r, safeSplit (ValueString e), dir)) (take (Suc k) elements),
            resp\<lparr>Diagnostics := Append (Diagnostics resp) (fst (Plan req))
               @ [ErrorDiagnostic
                    (''Could not execute Command: ''
                       @ Cmd_String h wk (executable r) (safeSplit (ValueString (elements ! k))))
                    err]\<rparr>)"
proof -
  from assms(6-8) have
    "Create_loop h (executable r) dir w elements =
       (w', map (\<lambda>e. (executable r, safeSplit (ValueString e), dir)) (take (Suc k) elements),
        Some (''Could not execute Command: ''
                @ Cmd_String h wk (executable r) (safeSplit (ValueString (elements ! k))), err))"
    by (rule Create_loop_failure_at)
  with assms(1-5) show ?thesis
    by (simp add: Create_def exists_found AddError_fresh)
qed

text \<open>C3 on the example host: the second of three commands fails, the third never runs.\<close>
theorem Create_stops_at_first_failure_witness:
  "Create example_host npm app_world
     (example_request [''run-script build'', ''test --all'', ''run-script package''])
     empty_response =
     ([(''/app/.next'', []), (''/app'', [])],
      [(''npm'', [''run-script'', ''build''], ''/app''),
       (''npm'', [''test'', ''--all''], ''/app'')],
      \<lparr>Diagnostics =
         [ErrorDiagnostic ''Could not execute Command: /usr/bin/npm test --all''
            ''exit status 1''],
       State = None\<rparr>)"
proof -
  let ?req = "example_request [''run-script build'', ''test --all'', ''run-script package'']"
  let ?elements = "map StringValue [''run-script build'', ''test --all'', ''run-script package'']"
  have 1: "\<not> HasError (Append (Diagnostics empty_response) (fst (Plan ?req)))"
    by (simp add: example_defs)
  have 2: "SourcePath (snd (Plan ?req)) = StringValue ''/app''"
    by (simp add: example_defs)
  have 3: "os_Stat example_host app_world ''/app'' = None"
    by (simp add: example_defs)
  have 4: "ElementsAs example_host (Commands (snd (Plan ?req))) = ([], ?elements)"
    by (simp add: example_defs)
  have 5: "\<not> HasError []" by simp
  have 6: "1 < length ?elements" by simp
  have 7: "Create_loop example_host (executable npm) ''/app'' app_world (take 1 ?elements)
             = ([(''/app/.next'', []), (''/app'', [])],
                [(''npm'', [''run-script'', ''build''], ''/app'')], None)"
    by (simp add: Create_eval example_defs)
  have 8: "exec_Output example_host [(''/app/.next'', []), (''/app'', [])] (executable npm)
             (safeSplit (ValueString (?elements ! 1))) ''/app''
             = ([(''/app/.next'', []), (''/app'', [])], [], Some ''exit status 1'')"
    by (simp add: Create_eval example_defs)
  from Create_stops_at_first_failure [OF 1 2 3 4 5 6 7 8] show ?thesis
    by (simp add: Create_eval example_defs)
qed


text \<open>
  Claim C4. When the plan decodes without error and its source path is known, non-empty
  and not found by \<open>os.Stat\<close> (or \<open>os.Stat\<close> fails on it), \<open>Create\<close> reports the error
  \<open>Source Path is not Valid\<close>, runs no command and leaves the world and the state as
  they were: the check comes before the command loop.
\<close>
theorem Create_missing_source_path:
  assumes "\<not> HasError (Append (Diagnostics resp) (fst (Plan req)))"
    and "SourcePath (snd (Plan req)) = StringValue sourcePath"
    and "sourcePath \<noteq> []"
    and "os_Stat h w sourcePath \<noteq> None"
  shows "Create h r w req resp =
           (w, [],
            resp\<lparr>Diagnostics := Append (Diagnostics resp) (fst (Plan req))
               @ [ErrorDiagnostic ''Source Path is not Valid''
                    ''The Source Path either does not exist, or Terraform cannot access the Path.'']\<rparr>)"
  using assms exists_failed [of h w sourcePath]
  by (simp add: Create_def AddError_fresh)

text \<open>C4 on the example host, in a world without the directory \<open>/app\<close>.\<close>
theorem Create_missing_source_path_witness:
  "Create example_host npm [] (example_request default_commands) empty_response =
     ([], [],
      \<lparr>Diagnostics =
         [ErrorDiagnostic ''Source Path is not Valid''
            ''The Source Path either does not exist, or Terraform cannot access the Path.''],
       State = None\<rparr>)"
proof -
  let ?req = "example_request default_commands"
  have 1: "\<not> HasError (Append (Diagnostics empty_response) (fst (Plan ?req)))"
    by (simp add: example_defs)
  have 2: "SourcePath (snd (Plan ?req)) = StringValue ''/app''"
    by (simp add: example_defs)
  have 3: "''/app'' \<noteq> []" by simp
  have 4: "os_Stat example_host [] ''/app'' \<noteq> None"
    by (simp add: example_defs)
  from Create_missing_source_path [OF 1 2 3 4] show ?thesis
    by (simp add: example_defs)
qed

text \<open>
  Claim C5, as the code has it. When every command succeeds and the state file (the
  source path joined with \<open>.serverless\<close> and \<open>serverless-state.json\<close>) is not found or not
  accessible, \<open>Create\<close> reports one more error diagnostic and stores nothing. The
  diagnostic has the summary and the detail of the one reported for a missing source
  path.
\<close>
theorem Create_missing_state_file:
  assumes "\<not> HasError (Append (Diagnostics resp) (fst (Plan req)))"
    and "SourcePath (snd (Plan req)) = StringValue dir"
    and "os_Stat h w dir = None"
    and "\<not> HasError (fst (ElementsAs h (Commands (snd (Plan req)))))"
    and "Create_loop h (executable r) dir w (snd (ElementsAs h (Commands (snd (Plan req)))))
           = (w', trace, None)"
    and "os_Stat h w' (path_Join h [dir, ''.serverless'', ''serverless-state.json'']) \<noteq> None"
  shows "Create h r w req resp =
           (w', trace,
            resp\<lparr>Diagnostics := Append (Diagnostics resp) (fst (Plan req))
               @ [ErrorDiagnostic ''Source Path is not Valid''
                    ''The Source Path either does not exist, or Terraform cannot access the Path.'']\<rparr>)"
  using assms
    exists_failed [of h w' "path_Join h [dir, ''.serverless'', ''serverless-state.json'']"]
  by (simp add: Create_def exists_found AddError_fresh)

text \<open>C5 on the example host: \<open>run-script build\<close> succeeds and writes no state file.\<close>
theorem Create_missing_state_file_witness:
  "Create example_host npm app_world (example_request [''run-script build'']) empty_response =
     ([(''/app/.next'', []), (''/app'', [])],
      [(''npm'', [''run-script'', ''build''], ''/app'')],
      \<lparr>Diagnostics =
         [ErrorDiagnostic ''Source Path is not Valid''
            ''The Source Path either does not exist, or Terraform cannot access the Path.''],
       State = None\<rparr>)"
proof -
  let ?req = "example_request [''run-script build'']"
  let ?w' = "[(''/app/.next'', []), (''/app'', [])]"
  have 1: "\<not> HasError (Append (Diagnostics empty_response) (fst (Plan ?req)))"
    by (simp add: example_defs)
  have 2: "SourcePath (snd (Plan ?req)) = StringValue ''/app''"
    by (simp add: example_defs)
  have 3: "os_Stat example_host app_world ''/app'' = None"
    by (simp add: example_defs)
  have 4: "\<not> HasError (fst (ElementsAs example_host (Commands (snd (Plan ?req)))))"
    by (simp add: example_defs)
  have 5: "Create_loop example_host (executable npm) ''/app'' app_world
             (snd (ElementsAs example_host (Commands (snd (Plan ?req)))))
             = (?w', [(''npm'', [''run-script'', ''build''], ''/app'')], None)"
    by (simp add: Create_eval example_defs)
  have 6: "os_Stat example_host ?w'
             (path_Join example_host [''/app'', ''.serverless'', ''serverless-state.json''])
             \<noteq> None"
    by (simp add: example_defs)
  from Create_missing_state_file [OF 1 2 3 4 5 6] show ?thesis
    by (simp add: example_defs)
qed

text \<open>
  Claim C5 as stated fails: the response for a missing state file after a successful
  command equals the response for a missing source directory, so the two conditions
  cannot be told apart from what \<open>Create\<close> reports.
\<close>
theorem Create_state_file_error_counterexample:
  "snd (snd (Create example_host npm app_world (example_request [''run-script build''])
               empty_response))
     = snd (snd (Create example_host npm [] (example_request [''run-script build''])
                   empty_response))
   \<and> fst (snd (Create example_host npm app_world (example_request [''run-script build''])
                 empty_response))
       = [(''npm'', [''run-script'', ''build''], ''/app'')]
   \<and> os_Stat example_host app_world ''/app'' = None
   \<and> os_Stat example_host [] ''/app'' = Some ErrNotExist"
  by (simp add: Create_eval example_defs)

text \<open>
  Claim C6. \<open>Create\<close> fails when the response ends with an error diagnostic (plan
  decoding, source path null, unknown or missing, failed command, missing state file,
  parse error) or when the conversion of the command list reports an error, which is only
  logged. In each of these cases the state of the response is the state it held before the
  call; in every other case it is the planned model with the placeholder artifact. An
  \<open>Update\<close> that ends with an error diagnostic leaves the state alone as well.
\<close>
theorem Create_failure_keeps_state:
  "(HasError (Diagnostics (snd (snd (Create h r w req resp))))
      \<or> HasError (fst (ElementsAs h (Commands (snd (Plan req)))))
    \<longrightarrow> State (snd (snd (Create h r w req resp))) = State resp)
   \<and> (\<not> (HasError (Diagnostics (snd (snd (Create h r w req resp))))
          \<or> HasError (fst (ElementsAs h (Commands (snd (Plan req))))))
    \<longrightarrow> State (snd (snd (Create h r w req resp)))
          = Some ((snd (Plan req))\<lparr>Data := placeholder\<rparr>))
   \<and> (HasError (Diagnostics (snd (snd (Update h r w req resp))))
    \<longrightarrow> State (snd (snd (Update h r w req resp))) = State resp)"
proof (intro conjI impI)
  assume "HasError (Diagnostics (snd (snd (Create h r w req resp))))
      \<or> HasError (fst (ElementsAs h (Commands (snd (Plan req)))))"
  then show "State (snd (snd (Create h r w req resp))) = State resp"
    by (auto simp: Create_def Let_def split: prod.splits option.splits sum.splits if_splits)
next
  assume "\<not> (HasError (Diagnostics (snd (snd (Create h r w req resp))))
          \<or> HasError (fst (ElementsAs h (Commands (snd (Plan req))))))"
  then show "State (snd (snd (Create h r w req resp)))
          = Some ((snd (Plan req))\<lparr>Data := placeholder\<rparr>)"
    by (auto simp: Create_def Let_def HasError_AddError
        split: prod.splits option.splits sum.splits if_splits)
next
  assume "HasError (Diagnostics (snd (snd (Update h r w req resp))))"
  then show "State (snd (snd (Update h r w req resp))) = State resp"
    by (auto simp: Update_def Let_def split: if_splits)
qed

text \<open>
  C6 on the example host: a create whose command fails and an update whose plan does not
  decode both leave the stored state in place.
\<close>
theorem Create_failure_keeps_state_witness:
  "State (snd (snd (Create example_host npm app_world (example_request [''test''])
                      stored_response))) = State stored_response
   \<and> State (snd (snd (Update example_host npm app_world
                        \<lparr>Plan = ([ErrorDiagnostic ''Value Conversion Error'' ''mismatch''],
                                 example_model [''test''])\<rparr>
                        stored_response))) = State stored_response"
proof -
  let ?bad = "\<lparr>Plan = ([ErrorDiagnostic ''Value Conversion Error'' ''mismatch''],
                       example_model [''test''])\<rparr>"
  have failed: "HasError (Diagnostics (snd (snd (Create example_host npm app_world
                  (example_request [''test'']) stored_response))))"
    by (simp add: Create_eval example_defs stored_response_def)
  have undecoded: "HasError (Diagnostics (snd (snd (Update example_host npm app_world ?bad
                     stored_response))))"
    by (simp add: Update_def stored_response_def)
  from Create_failure_keeps_state
         [of example_host npm app_world "example_request [''test'']" stored_response]
       failed
  have "State (snd (snd (Create example_host npm app_world (example_request [''test''])
                           stored_response))) = State stored_response"
    by blast
  moreover
  from Create_failure_keeps_state [of example_host npm app_world ?bad stored_response]
       undecoded
  have "State (snd (snd (Update example_host npm app_world ?bad stored_response)))
          = State stored_response"
    by blast
  ultimately show ?thesis by simp
qed

end
